theory Spec2Isabelle
  imports Complex_Main
begin

section \<open>The persistent store of pos0.py\<close>

text \<open>
  The four tables that \<^verbatim>\<open>setup_database\<close> creates, restricted to the three the core
  operations below touch. A row is a record of its columns; a table is the list of its
  rows in insertion order. The columns hold values of their declared types: Python's
  unbounded \<^verbatim>\<open>int\<close> is \<^typ>\<open>int\<close>, a \<^verbatim>\<open>REAL\<close> column is idealised as \<^typ>\<open>real\<close>
  (no rounding), \<^verbatim>\<open>TEXT\<close> is \<^typ>\<open>string\<close>, and the two columns the code fills with
  \<^verbatim>\<open>None\<close> (\<^verbatim>\<open>customer_id\<close>, \<^verbatim>\<open>age\<close>) are options. Each \<^verbatim>\<open>AUTOINCREMENT\<close> key
  has its \<^verbatim>\<open>sqlite_sequence\<close> counter in the store.
\<close>

record product =
  p_id :: int
  p_name :: string
  p_price :: real
  p_stock :: int
  p_category :: string
  p_barcode :: string

record sale =
  s_id :: int
  s_product_id :: int
  s_quantity :: int
  s_total :: real
  s_discount :: real
  s_date :: string
  s_staff_id :: int
  s_payment_method :: string
  s_customer_id :: "int option"

record customer =
  c_id :: int
  c_name :: string
  c_email :: string
  c_points :: int
  c_age :: "int option"

record store =
  products :: "product list"
  sales :: "sale list"
  customers :: "customer list"
  products_seq :: int
  sales_seq :: int
  customers_seq :: int

text \<open>
  The key SQLite gives a new row of an \<^verbatim>\<open>AUTOINCREMENT\<close> table: one more than the
  largest key the table holds or has ever held.
\<close>

definition fresh_id :: "int \<Rightarrow> int list \<Rightarrow> int" where
  "fresh_id seq ids = fold max ids seq + 1"

section \<open>Python values and exceptions\<close>

text \<open>
  The exceptions the modelled code can raise, and the values a cursor hands back. A
  connection made by \<^verbatim>\<open>sqlite3.connect\<close> has no \<^verbatim>\<open>row_factory\<close>, so
  \<^verbatim>\<open>fetchone()\<close> is \<^verbatim>\<open>None\<close> or a plain tuple; \<open>getitem\<close> is Python's subscript on
  that result: \<^verbatim>\<open>None\<close> is not subscriptable, a tuple takes integer indices only
  (negative ones count from the end) and raises on a string.
\<close>

datatype exn =
  TypeError | NameError | IntegrityError | ValueError | IndexError | OverflowError |
  OperationalError

text \<open>
  SQLite's \<^verbatim>\<open>INTEGER\<close> is a signed 64-bit number. A Python \<^verbatim>\<open>int\<close> outside that
  range cannot be bound to a statement parameter: \<^verbatim>\<open>execute\<close> raises OverflowError
  before the statement runs. \<^verbatim>\<open>None\<close> binds as \<^verbatim>\<open>NULL\<close>.
\<close>

definition fits_int64 :: "int \<Rightarrow> bool" where
  "fits_int64 n = (- (2 ^ 63) \<le> n \<and> n < 2 ^ 63)"


text \<open>
  The handler \<^verbatim>\<open>except Exception as e\<close> that add_product, adjust_stock,
  delete_product and add_customer share: its log line calls
  \<^verbatim>\<open>traceback.format_exc()\<close>, the module never imports \<^verbatim>\<open>traceback\<close>, so whatever
  exception arrives, NameError leaves; the \<^verbatim>\<open>raise\<close> after the log line is not
  reached.
\<close>

definition generic_handler :: "exn \<Rightarrow> exn" where
  "generic_handler e = NameError"

datatype pyval = PyInt int | PyFloat real | PyStr string | PyNone

datatype subscript = IntKey int | StrKey string

fun getitem :: "pyval list option \<Rightarrow> subscript \<Rightarrow> exn + pyval" where
  "getitem None k = Inl TypeError"
| "getitem (Some t) (StrKey s) = Inl TypeError"
| "getitem (Some t) (IntKey i) =
     (let n = int (length t); j = (if i < 0 then n + i else i)
      in if 0 \<le> j \<and> j < n then Inr (t ! nat j) else Inl IndexError)"

section \<open>Reporting: get_sales_summary and get_avg_sale_value\<close>

text \<open>
  SQLite compares \<^verbatim>\<open>TEXT\<close> values byte by byte, a proper prefix being smaller.
  \<open>sales_since\<close> is the clause \<^verbatim>\<open>FROM sales WHERE date >= ?\<close>.
\<close>

fun text_less :: "string \<Rightarrow> string \<Rightarrow> bool" where
  "text_less [] [] = False"
| "text_less [] (y # ys) = True"
| "text_less (x # xs) [] = False"
| "text_less (x # xs) (y # ys) =
     ((of_char x :: nat) < of_char y \<or> (x = y \<and> text_less xs ys))"

definition sales_since :: "string \<Rightarrow> store \<Rightarrow> sale list" where
  "sales_since start_date db = filter (\<lambda>s. \<not> text_less (s_date s) start_date) (sales db)"

text \<open>
  \<^verbatim>\<open>SUM\<close> and \<^verbatim>\<open>AVG\<close> over no rows are \<^verbatim>\<open>NULL\<close>, which the cursor returns as
  \<^verbatim>\<open>None\<close>; \<open>or_zero\<close> is the source's \<^verbatim>\<open>result[i] or 0\<close> (a sum that is zero is
  falsy too, and becomes the integer zero, the same number).
\<close>

definition sql_sum :: "real list \<Rightarrow> real option" where
  "sql_sum xs = (if xs = [] then None else Some (sum_list xs))"

text \<open>
  \<^verbatim>\<open>SUM\<close> over an \<^verbatim>\<open>INTEGER\<close> column adds in 64 bits, row by row in table order; as
  soon as a running sum leaves the range the statement fails with "integer overflow",
  which Python raises as OperationalError. \<open>running_sums\<close> are the sums after each row.
\<close>

fun sum_int64 :: "int list \<Rightarrow> int \<Rightarrow> exn + int" where
  "sum_int64 [] acc = Inr acc"
| "sum_int64 (x # xs) acc =
     (if fits_int64 (acc + x) then sum_int64 xs (acc + x) else Inl OperationalError)"

definition sql_sum_int :: "int list \<Rightarrow> exn + int option" where
  "sql_sum_int xs =
     (if xs = [] then Inr None
      else (case sum_int64 xs 0 of Inl e \<Rightarrow> Inl e | Inr n \<Rightarrow> Inr (Some n)))"


definition sql_avg :: "real list \<Rightarrow> real option" where
  "sql_avg xs = (if xs = [] then None else Some (sum_list xs / real (length xs)))"

definition or_zero :: "'a::zero option \<Rightarrow> 'a" where
  "or_zero r = (case r of None \<Rightarrow> 0 | Some v \<Rightarrow> if v = 0 then 0 else v)"

text \<open>
  The three strings \<^verbatim>\<open>start_date\<close> can take, as \<^verbatim>\<open>strftime\<close> formats them from
  \<^verbatim>\<open>datetime.now()\<close> at the call: midnight today, seven days ago, thirty days ago.
\<close>

record clock =
  today_start :: string
  week_start :: string
  month_start :: string

text \<open>
  \<^verbatim>\<open>get_sales_summary(period)\<close> has no handler: an error of the query escapes as it
  is. Otherwise the row \<^verbatim>\<open>(SUM(total), SUM(quantity))\<close> is returned with \<^verbatim>\<open>or 0\<close>
  on each component.
\<close>

definition get_sales_summary :: "string \<Rightarrow> clock \<Rightarrow> store \<Rightarrow> exn + real \<times> int" where
  "get_sales_summary period clk db =
     (let rows =
        (if period = ''today'' then sales_since (today_start clk) db
         else if period = ''week'' then sales_since (week_start clk) db
         else if period = ''month'' then sales_since (month_start clk) db
         else sales db)
      in case sql_sum_int (map s_quantity rows) of
           Inl e \<Rightarrow> Inl e
         | Inr items \<Rightarrow>
             (let result = (sql_sum (map s_total rows), items)
              in Inr (or_zero (fst result), or_zero (snd result))))"

definition get_avg_sale_value :: "string \<Rightarrow> clock \<Rightarrow> store \<Rightarrow> real" where
  "get_avg_sale_value period clk db =
     (let rows =
        (if period = ''today'' then sales_since (today_start clk) db
         else if period = ''week'' then sales_since (week_start clk) db
         else if period = ''month'' then sales_since (month_start clk) db
         else sales db);
          result = sql_avg (map s_total rows)
      in or_zero result)"

text \<open>
  The rows of the sales log that fall in a reporting window: since the window's start
  for the three named windows, the whole log for all-time.
\<close>

definition window_rows :: "string \<Rightarrow> clock \<Rightarrow> store \<Rightarrow> sale list" where
  "window_rows period clk db =
     (if period = ''today'' then sales_since (today_start clk) db
      else if period = ''week'' then sales_since (week_start clk) db
      else if period = ''month'' then sales_since (month_start clk) db
      else sales db)"

section \<open>Checkout: record_sale\<close>

text \<open>
  A cart line is the triple \<^verbatim>\<open>(product_id, quantity, price)\<close> that the first loop of
  \<^verbatim>\<open>record_sale\<close> unpacks. \<open>select_stock_name\<close> is
  \<^verbatim>\<open>SELECT stock, name FROM products WHERE id = ?\<close> followed by \<^verbatim>\<open>fetchone()\<close> on
  the cursor of record_sale's own connection, which sets no \<^verbatim>\<open>row_factory\<close>: the row
  is a tuple, \<^verbatim>\<open>None\<close> when no product has the key.
\<close>

type_synonym cart_line = "int \<times> int \<times> real"

fun select_stock_name :: "int \<Rightarrow> product list \<Rightarrow> pyval list option" where
  "select_stock_name product_id [] = None"
| "select_stock_name product_id (p # ps) =
     (if p_id p = product_id then Some [PyInt (p_stock p), PyStr (p_name p)]
      else select_stock_name product_id ps)"

text \<open>\<^verbatim>\<open>UPDATE products SET stock = stock - ? WHERE id = ?\<close>\<close>

definition update_stock_minus :: "int \<Rightarrow> int \<Rightarrow> product list \<Rightarrow> product list" where
  "update_stock_minus product_id quantity ps =
     map (\<lambda>p. if p_id p = product_id then p\<lparr>p_stock := p_stock p - quantity\<rparr> else p) ps"

text \<open>Python's \<^verbatim>\<open>stock < quantity\<close> for an integer quantity.\<close>

fun py_less_int :: "pyval \<Rightarrow> int \<Rightarrow> exn + bool" where
  "py_less_int (PyInt a) b = Inr (a < b)"
| "py_less_int (PyFloat a) b = Inr (a < of_int b)"
| "py_less_int (PyStr a) b = Inl TypeError"
| "py_less_int PyNone b = Inl TypeError"

text \<open>
  The first loop (lines 144 to 156), run on the transaction's working copy of the
  products table with the running \<^verbatim>\<open>total_sale\<close>. It ends in an exception, in the
  early return of line 152 (\<open>Insufficient\<close>), or normally with the total and the
  decremented table (\<open>Reserved\<close>).
\<close>

datatype checked = Insufficient | Reserved real "product list"

fun check_lines :: "cart_line list \<Rightarrow> real \<Rightarrow> product list \<Rightarrow> exn + checked" where
  "check_lines [] total_sale ps = Inr (Reserved total_sale ps)"
| "check_lines ((product_id, quantity, price) # rest) total_sale ps =
     (let result = select_stock_name product_id ps in
      case getitem result (StrKey ''stock'') of
        Inl e \<Rightarrow> Inl e
      | Inr stock \<Rightarrow>
          (case getitem result (StrKey ''name'') of
             Inl e \<Rightarrow> Inl e
           | Inr name \<Rightarrow>
               (case py_less_int stock quantity of
                  Inl e \<Rightarrow> Inl e
                | Inr True \<Rightarrow> Inr Insufficient
                | Inr False \<Rightarrow>
                    check_lines rest (total_sale + price * of_int quantity)
                      (update_stock_minus product_id quantity ps))))"

text \<open>
  The second loop (lines 158 to 160): one \<^verbatim>\<open>INSERT INTO sales\<close> per cart line, each
  with \<^verbatim>\<open>total_sale / len(cart_items)\<close> and \<^verbatim>\<open>discount / len(cart_items)\<close>; \<open>n\<close> is
  \<^verbatim>\<open>len(cart_items)\<close>. The table is paired with its key counter.
\<close>

fun insert_sales ::
  "cart_line list \<Rightarrow> nat \<Rightarrow> real \<Rightarrow> real \<Rightarrow> string \<Rightarrow> int \<Rightarrow> string \<Rightarrow> int option \<Rightarrow>
   sale list \<times> int \<Rightarrow> sale list \<times> int" where
  "insert_sales [] n total_sale discount date staff_id payment_method customer_id tbl = tbl"
| "insert_sales ((product_id, quantity, price) # rest) n total_sale discount date staff_id
     payment_method customer_id (rows, seq) =
     (let k = fresh_id seq (map s_id rows) in
      insert_sales rest n total_sale discount date staff_id payment_method customer_id
        (rows @ [\<lparr>s_id = k, s_product_id = product_id, s_quantity = quantity,
                  s_total = total_sale / real n, s_discount = discount / real n,
                  s_date = date, s_staff_id = staff_id,
                  s_payment_method = payment_method, s_customer_id = customer_id\<rparr>], k))"

text \<open>
  \<^verbatim>\<open>record_sale(cart_items, staff_id, payment_method, discount, customer_id)\<close>, with
  the string \<^verbatim>\<open>date\<close> that line 141 formats from the clock as a further argument. The
  result pairs what the call returns or raises with the store it leaves: \<open>Inr None\<close> is
  the pair \<^verbatim>\<open>(None, None)\<close>, \<open>Inr (Some (total_sale, date))\<close> the pair of a
  committed sale. An exception of the \<^verbatim>\<open>try\<close> block reaches the handler of line 164,
  which rolls back and then formats its log line with \<^verbatim>\<open>traceback.format_exc()\<close>; the
  module never imports \<^verbatim>\<open>traceback\<close>, so the handler itself raises NameError, and
  the return of line 167 is not reached.
\<close>

definition record_sale ::
  "cart_line list \<Rightarrow> int \<Rightarrow> string \<Rightarrow> real \<Rightarrow> int option \<Rightarrow> string \<Rightarrow> store \<Rightarrow>
   (exn + (real \<times> string) option) \<times> store" where
  "record_sale cart_items staff_id payment_method discount customer_id date db =
     (case check_lines cart_items 0 (products db) of
        Inl e \<Rightarrow> (Inl NameError, db)
      | Inr Insufficient \<Rightarrow> (Inr None, db)
      | Inr (Reserved summed ps) \<Rightarrow>
          (let total_sale = summed - discount;
               tbl = insert_sales cart_items (length cart_items) total_sale discount date
                       staff_id payment_method customer_id (sales db, sales_seq db)
           in (Inr (Some (total_sale, date)),
               db\<lparr>products := ps, sales := fst tbl, sales_seq := snd tbl\<rparr>)))"

section \<open>Inventory: add_product, adjust_stock, delete_product\<close>

text \<open>
  \<^verbatim>\<open>add_product(name, price, stock, category)\<close>. The barcode of line 76 joins the
  name, Python's rendering of the price and the clock's \<^verbatim>\<open>%H%M%S\<close>; the last two
  are arguments here (\<open>price_text\<close>, \<open>hhmmss\<close>), as is whether the barcode image could
  be written (\<open>image_ok\<close>). The \<^verbatim>\<open>INSERT\<close> fails on a barcode the table already
  holds, which the code turns into ValueError. A failure of \<^verbatim>\<open>generate_barcode\<close>
  comes after the commit, so the product stays; its handler and that of add_product
  both name the missing \<^verbatim>\<open>traceback\<close>, so what escapes is NameError. Neither price
  nor stock is checked. Before the barcode is compared, a stock outside 64 bits fails
  to bind (OverflowError) and a table whose largest key has been used cannot take a
  row (OperationalError, "database or disk is full"); both reach the generic handler
  with nothing written.
\<close>

definition add_product ::
  "string \<Rightarrow> real \<Rightarrow> int \<Rightarrow> string \<Rightarrow> string \<Rightarrow> string \<Rightarrow> bool \<Rightarrow> store \<Rightarrow>
   (exn + string) \<times> store" where
  "add_product name price stock category price_text hhmmss image_ok db =
     (let barcode = name @ ''_'' @ price_text @ ''_'' @ hhmmss;
          k = fresh_id (products_seq db) (map p_id (products db)) in
      if \<not> fits_int64 stock then (Inl (generic_handler OverflowError), db)
      else if \<not> fits_int64 k then (Inl (generic_handler OperationalError), db)
      else if barcode \<in> set (map p_barcode (products db)) then (Inl ValueError, db)
      else
        (let db' = db\<lparr>products := products db @
                        [\<lparr>p_id = k, p_name = name, p_price = price, p_stock = stock,
                          p_category = category, p_barcode = barcode\<rparr>],
                      products_seq := k\<rparr>
         in if image_ok then (Inr barcode, db') else (Inl NameError, db')))"

text \<open>
  \<^verbatim>\<open>adjust_stock(product_id, new_stock)\<close>: the single statement
  \<^verbatim>\<open>UPDATE products SET stock = ? WHERE id = ?\<close>, with no check of \<^verbatim>\<open>new_stock\<close>
  and no check that a row was updated. A parameter outside 64 bits fails to bind; the
  statement does not run and the generic handler is reached.
\<close>

definition adjust_stock :: "int \<Rightarrow> int \<Rightarrow> store \<Rightarrow> (exn + unit) \<times> store" where
  "adjust_stock product_id new_stock db =
     (if fits_int64 new_stock \<and> fits_int64 product_id
      then (Inr (),
            db\<lparr>products :=
                 map (\<lambda>p. if p_id p = product_id then p\<lparr>p_stock := new_stock\<rparr> else p)
                   (products db)\<rparr>)
      else (Inl (generic_handler OverflowError), db))"

text \<open>
  \<^verbatim>\<open>delete_product(product_id)\<close>: first
  \<^verbatim>\<open>DELETE FROM sales WHERE product_id = ?\<close>, then
  \<^verbatim>\<open>DELETE FROM products WHERE id = ?\<close>; neither statement looks at how many rows
  it removed. A key outside 64 bits fails to bind in the first statement.
\<close>

definition delete_product :: "int \<Rightarrow> store \<Rightarrow> (exn + unit) \<times> store" where
  "delete_product product_id db =
     (if fits_int64 product_id
      then (Inr (),
            db\<lparr>sales := filter (\<lambda>s. s_product_id s \<noteq> product_id) (sales db),
               products := filter (\<lambda>p. p_id p \<noteq> product_id) (products db)\<rparr>)
      else (Inl (generic_handler OverflowError), db))"

text \<open>
  The caller of adjust_stock, \<^verbatim>\<open>ShopifyPOS.apply_stock_adjust\<close>. \<open>parsed\<close> is the
  outcome of \<^verbatim>\<open>int(new_stock)\<close> on the text of the entry field, \<open>None\<close> when that
  raises ValueError. The method catches ValueError and shows its message as a warning
  (\<open>Warning_caught\<close> where the text is Python's own); any other exception escapes.
  The result is the dialog shown.
\<close>

datatype dialog = Info_stock_set int | Warning string | Warning_caught exn

definition apply_stock_adjust ::
  "int \<Rightarrow> int option \<Rightarrow> store \<Rightarrow> (exn + dialog) \<times> store" where
  "apply_stock_adjust product_id parsed db =
     (case parsed of
        None \<Rightarrow> (Inr (Warning_caught ValueError), db)
      | Some new_stock \<Rightarrow>
          if new_stock < 0 then (Inr (Warning ''Stock cannot be negative.''), db)
          else (case adjust_stock product_id new_stock db of
                  (Inl e, db') \<Rightarrow>
                    (if e = ValueError then (Inr (Warning_caught e), db') else (Inl e, db'))
                | (Inr u, db') \<Rightarrow> (Inr (Info_stock_set new_stock), db')))"

text \<open>
  The return of a sale, \<^verbatim>\<open>ShopifyPOS.process_return\<close>, once confirmed: the three
  numbers are read from the selected line of the sales table on screen; then
  \<^verbatim>\<open>DELETE FROM sales WHERE id = ?\<close> and
  \<^verbatim>\<open>UPDATE products SET stock = stock + ? WHERE id = ?\<close>. The method has no handler:
  a parameter that fails to bind raises OverflowError out of it, and the connection
  rolls back. The sum is kept exact here; where it leaves 64 bits SQLite stores the
  \<^verbatim>\<open>REAL\<close> nearest to it, a number of the same sign.
\<close>

definition process_return :: "int \<Rightarrow> int \<Rightarrow> int \<Rightarrow> store \<Rightarrow> (exn + unit) \<times> store" where
  "process_return sale_id product_id qty db =
     (if fits_int64 sale_id \<and> fits_int64 qty \<and> fits_int64 product_id
      then (Inr (),
            db\<lparr>sales := filter (\<lambda>s. s_id s \<noteq> sale_id) (sales db),
               products :=
                 map (\<lambda>p. if p_id p = product_id then p\<lparr>p_stock := p_stock p + qty\<rparr> else p)
                   (products db)\<rparr>)
      else (Inl OverflowError, db))"

section \<open>Customers: add_customer\<close>



section \<open>Sequences of core operations\<close>

text \<open>
  One call of a core operation with its arguments, and the store a sequence of calls
  leaves, whatever each call returns or raises.
\<close>

datatype operation =
    Add_product string real int string string string bool
  | Adjust_stock int int
  | Delete_product int
  | Record_sale "cart_line list" int string real "int option" string
  | Process_return int int int

fun run_operation :: "operation \<Rightarrow> store \<Rightarrow> store" where
  "run_operation (Add_product name price stock category price_text hhmmss image_ok) db =
     snd (add_product name price stock category price_text hhmmss image_ok db)"
| "run_operation (Adjust_stock product_id new_stock) db =
     snd (adjust_stock product_id new_stock db)"
| "run_operation (Delete_product product_id) db = snd (delete_product product_id db)"
| "run_operation (Record_sale cart_items staff_id payment_method discount customer_id date) db =
     snd (record_sale cart_items staff_id payment_method discount customer_id date db)"
| "run_operation (Process_return sale_id product_id qty) db =
     snd (process_return sale_id product_id qty db)"

fun run_operations :: "operation list \<Rightarrow> store \<Rightarrow> store" where
  "run_operations [] db = db"
| "run_operations (x # xs) db = run_operations xs (run_operation x db)"

definition stock_nonneg :: "store \<Rightarrow> bool" where
  "stock_nonneg db = list_all (\<lambda>p. 0 \<le> p_stock p) (products db)"

text \<open>
  Every Sale row refers to a product that exists: the foreign key of the sales table,
  which SQLite declares without enforcing.
\<close>

definition sales_refer :: "store \<Rightarrow> bool" where
  "sales_refer db =
     list_all (\<lambda>s. s_product_id s \<in> set (map p_id (products db))) (sales db)"

text \<open>
  What the callers check before they call: a non-negative stock for add_product
  (\<^verbatim>\<open>ShopifyPOS.add_product\<close>) and for adjust_stock (apply_stock_adjust); a return
  gives back the quantity of a sale, which is not negative.
\<close>

fun stock_checked :: "operation \<Rightarrow> bool" where
  "stock_checked (Add_product name price stock category price_text hhmmss image_ok) =
     (0 \<le> stock)"
| "stock_checked (Adjust_stock product_id new_stock) = (0 \<le> new_stock)"
| "stock_checked (Delete_product product_id) = True"
| "stock_checked (Record_sale cart_items staff_id payment_method discount customer_id date) =
     True"
| "stock_checked (Process_return sale_id product_id qty) = (0 \<le> qty)"

section \<open>Sample data\<close>

definition empty_store :: store where
  "empty_store = \<lparr>products = [], sales = [], customers = [],
     products_seq = 0, sales_seq = 0, customers_seq = 0\<rparr>"

definition pen :: product where
  "pen = \<lparr>p_id = 1, p_name = ''Pen'', p_price = 5, p_stock = 10,
     p_category = ''Stationery'', p_barcode = ''Pen_5.0_101500''\<rparr>"

definition notebook :: product where
  "notebook = \<lparr>p_id = 2, p_name = ''Notebook'', p_price = 3, p_stock = 0,
     p_category = ''Stationery'', p_barcode = ''Notebook_3.0_101501''\<rparr>"

definition old_sale :: sale where
  "old_sale = \<lparr>s_id = 1, s_product_id = 1, s_quantity = 2, s_total = 10, s_discount = 0,
     s_date = ''2024-01-05 09:30:00'', s_staff_id = 1, s_payment_method = ''Cash'',
     s_customer_id = None\<rparr>"

definition noon_clock :: clock where
  "noon_clock = \<lparr>today_start = ''2024-03-01 00:00:00'',
     week_start = ''2024-02-23 12:00:00'', month_start = ''2024-01-31 12:00:00''\<rparr>"

definition pen_store :: store where
  "pen_store = empty_store\<lparr>products := [pen], products_seq := 1\<rparr>"

definition history_store :: store where
  "history_store = pen_store\<lparr>sales := [old_sale], sales_seq := 1\<rparr>"

definition two_product_store :: store where
  "two_product_store = empty_store\<lparr>products := [pen, notebook], products_seq := 2\<rparr>"

definition recent_sale :: sale where
  "recent_sale = \<lparr>s_id = 2, s_product_id = 1, s_quantity = 3, s_total = 15 / 2,
     s_discount = 0, s_date = ''2024-03-01 08:15:00'', s_staff_id = 1,
     s_payment_method = ''Card'', s_customer_id = None\<rparr>"

definition two_sale_store :: store where
  "two_sale_store = pen_store\<lparr>sales := [old_sale, recent_sale], sales_seq := 2\<rparr>"



definition busy_day :: "operation list" where
  "busy_day = [Add_product ''Cap'' 2 4 ''Clothing'' ''2.0'' ''101502'' True,
     Adjust_stock 1 3,
     Record_sale [(1, 2, 5)] 1 ''Cash'' 0 None ''2024-03-01 12:00:00'',
     Process_return 1 1 2,
     Delete_product 2]"

section \<open>Reporting on an empty window\<close>

lemma window_rows_history: "window_rows ''today'' noon_clock history_store = []"
  by (simp add: window_rows_def sales_since_def history_store_def pen_store_def
      empty_store_def old_sale_def noon_clock_def)

text \<open>
  C7. When no row of the sales log falls in the requested window, get_sales_summary
  returns (0, 0) and get_avg_sale_value returns 0. This holds for every period string,
  so in particular for today, week, month and all.
\<close>

theorem empty_window_reports_zero:
  "window_rows period clk db = [] \<Longrightarrow>
     get_sales_summary period clk db = Inr (0, 0) \<and> get_avg_sale_value period clk db = 0"
  by (simp add: window_rows_def get_sales_summary_def get_avg_sale_value_def
      sql_sum_def sql_sum_int_def sql_avg_def or_zero_def)

theorem empty_window_reports_zero_witness:
  "window_rows ''today'' noon_clock history_store = [] \<and>
   sales history_store \<noteq> [] \<and>
   get_sales_summary ''today'' noon_clock history_store = Inr (0, 0) \<and>
   get_avg_sale_value ''today'' noon_clock history_store = 0"
proof -
  have h: "window_rows ''today'' noon_clock history_store = []"
    by (rule window_rows_history)
  have s: "sales history_store \<noteq> []"
    by (simp add: history_store_def)
  from empty_window_reports_zero [OF h] h s show ?thesis
    by simp
qed

section \<open>Reporting on an unknown period\<close>







section \<open>Checkout on the code as written\<close>

lemma getitem_by_name: "getitem r (StrKey s) = Inl TypeError"
  by (cases r) simp_all

lemma check_lines_raises: "cart_items \<noteq> [] \<Longrightarrow> check_lines cart_items t ps = Inl TypeError"
proof (cases cart_items)
  case Nil
  assume "cart_items \<noteq> []"
  with Nil show ?thesis by simp
next
  case (Cons line rest)
  obtain product_id quantity price where "line = (product_id, quantity, price)"
    by (cases line) auto
  with Cons show ?thesis
    by (simp add: getitem_by_name)
qed

lemma record_sale_raises:
  "cart_items \<noteq> [] \<Longrightarrow>
     record_sale cart_items staff_id payment_method discount customer_id date db
       = (Inl NameError, db)"
  by (simp add: record_sale_def check_lines_raises)

text \<open>
  The only cart record_sale commits is the empty one: a call that returns the pair of a
  committed sale was given no cart line, so no committed cart has rows to allocate.
\<close>

lemma record_sale_commits_only_empty:
  "fst (record_sale cart_items staff_id payment_method discount customer_id date db)
     = Inr (Some r) \<Longrightarrow> cart_items = []"
  by (cases "cart_items = []") (simp_all add: record_sale_raises)

text \<open>
  C1. The second scenario of the specification: Pen has stock 10, Notebook stock 0, and
  the cart asks for 3 Pens and 1 Notebook. The store is left as it was, but the call does
  not return the failure pair: it raises NameError.
\<close>

theorem record_sale_short_stock_raises:
  "record_sale [(1, 3, 5), (2, 1, 3)] 1 ''Cash'' 0 None ''2024-03-01 12:00:00''
     two_product_store = (Inl NameError, two_product_store)"
  by (rule record_sale_raises) simp

text \<open>
  C4. The first scenario of the specification: Pen at 5.00 with stock 10, cart of 2 Pens,
  discount 0. The call raises NameError; Pen keeps its stock of 10 and the sales table
  stays empty.
\<close>

theorem record_sale_pen_scenario_raises:
  "record_sale [(1, 2, 5)] 1 ''Cash'' 0 None ''2024-03-01 12:00:00'' pen_store
     = (Inl NameError, pen_store) \<and>
   map p_stock (products pen_store) = [10] \<and> sales pen_store = []"
  by (simp add: record_sale_raises) (simp add: pen_store_def empty_store_def pen_def)

text \<open>
  C8 as stated fails: on the empty cart record_sale returns a result pair, here
  (0, date), and not the failure pair.
\<close>

theorem record_sale_empty_cart_counterexample:
  "fst (record_sale [] 1 ''Cash'' 0 None ''2024-03-01 12:00:00'' pen_store)
     = Inr (Some (0, ''2024-03-01 12:00:00'')) \<and>
   fst (record_sale [] 1 ''Cash'' 0 None ''2024-03-01 12:00:00'' pen_store) \<noteq> Inr None"
  by (simp add: record_sale_def)

text \<open>
  C8, amended. On the empty cart record_sale inserts no Sale row and changes no stock (the
  store it leaves is the store it found), and it returns the pair (0 - discount, date) of a
  committed sale, not the failure pair.
\<close>

theorem record_sale_empty_cart:
  "record_sale [] staff_id payment_method discount customer_id date db
     = (Inr (Some (0 - discount, date)), db)"
  by (simp add: record_sale_def)

section \<open>Stock stays non-negative\<close>

lemma record_sale_store:
  "snd (record_sale cart_items staff_id payment_method discount customer_id date db) = db"
proof (cases "cart_items = []")
  case True
  then show ?thesis by (simp add: record_sale_def)
next
  case False
  then show ?thesis by (simp add: record_sale_raises)
qed

lemma add_product_nonneg:
  "stock_nonneg db \<Longrightarrow> 0 \<le> stock \<Longrightarrow>
     stock_nonneg (snd (add_product name price stock category price_text hhmmss image_ok db))"
  by (simp add: add_product_def stock_nonneg_def Let_def)

lemma adjust_stock_nonneg:
  "stock_nonneg db \<Longrightarrow> 0 \<le> new_stock \<Longrightarrow>
     stock_nonneg (snd (adjust_stock product_id new_stock db))"
  by (auto simp: adjust_stock_def stock_nonneg_def list_all_iff)

lemma delete_product_nonneg:
  "stock_nonneg db \<Longrightarrow> stock_nonneg (snd (delete_product product_id db))"
  by (simp add: delete_product_def stock_nonneg_def list_all_iff)

lemma process_return_nonneg:
  "stock_nonneg db \<Longrightarrow> 0 \<le> qty \<Longrightarrow>
     stock_nonneg (snd (process_return sale_id product_id qty db))"
  by (auto simp: process_return_def stock_nonneg_def list_all_iff)

lemma run_operation_nonneg:
  "stock_nonneg db \<Longrightarrow> stock_checked x \<Longrightarrow> stock_nonneg (run_operation x db)"
  by (cases x)
    (simp_all add: add_product_nonneg adjust_stock_nonneg delete_product_nonneg
      process_return_nonneg record_sale_store)

text \<open>
  C2 as stated fails: adjust_stock stores a negative value it is given, so one call takes
  a store with stock \<ge> 0 everywhere to one without.
\<close>

theorem stock_nonneg_counterexample:
  "stock_nonneg pen_store \<and> \<not> stock_nonneg (run_operations [Adjust_stock 1 (- 1)] pen_store)"
  by (simp add: stock_nonneg_def adjust_stock_def fits_int64_def pen_store_def
      empty_store_def pen_def)

text \<open>
  C2, amended. Starting from a store where every product has stock \<ge> 0, every sequence of
  add_product, adjust_stock, delete_product, record_sale and return calls in which
  add_product and adjust_stock are given a non-negative stock, and a return a non-negative
  quantity, leaves every product with stock \<ge> 0.
\<close>

theorem stock_nonneg_preserved:
  "stock_nonneg db \<Longrightarrow> list_all stock_checked ops \<Longrightarrow> stock_nonneg (run_operations ops db)"
proof (induction ops arbitrary: db)
  case Nil
  then show ?case by simp
next
  case (Cons x xs)
  from Cons.prems have "stock_nonneg (run_operation x db)"
    by (simp add: run_operation_nonneg)
  with Cons.IH Cons.prems show ?case by simp
qed

lemma busy_day_checked: "list_all stock_checked busy_day"
  by (simp add: busy_day_def)

lemma history_store_nonneg: "stock_nonneg history_store"
  by (simp add: stock_nonneg_def history_store_def pen_store_def empty_store_def pen_def)

theorem stock_nonneg_preserved_witness:
  "stock_nonneg history_store \<and> list_all stock_checked busy_day \<and>
   stock_nonneg (run_operations busy_day history_store) \<and>
   map p_stock (products (run_operations busy_day history_store)) = [5]"
proof -
  have "map p_stock (products (run_operations busy_day history_store)) = [5]"
    by (simp add: busy_day_def record_sale_store add_product_def adjust_stock_def
        delete_product_def process_return_def fresh_id_def fits_int64_def Let_def
        history_store_def pen_store_def empty_store_def pen_def)
  with stock_nonneg_preserved [OF history_store_nonneg busy_day_checked]
    history_store_nonneg busy_day_checked
  show ?thesis by simp
qed

section \<open>Negative stock values\<close>

text \<open>
  C5 as stated fails: adjust_stock with a negative new stock returns normally and stores
  the negative value.
\<close>

theorem adjust_stock_negative_counterexample:
  "fst (adjust_stock 1 (- 1) pen_store) = Inr () \<and>
   map p_stock (products (snd (adjust_stock 1 (- 1) pen_store))) = [- 1] \<and>
   map p_stock (products pen_store) = [10]"
  by (simp add: adjust_stock_def fits_int64_def pen_store_def empty_store_def pen_def)

text \<open>
  C5, amended. Negative values are rejected by the caller: for every product id and every
  new stock below 0, apply_stock_adjust shows the warning that stock cannot be negative
  and leaves the store as it is, adjust_stock not being called. adjust_stock itself does
  not validate: given a negative new stock and a product id that both fit 64 bits, it
  returns normally and sets the stock of the product with that id to the negative value.
\<close>

theorem negative_stock_rejected_by_caller:
  "new_stock < 0 \<Longrightarrow>
     apply_stock_adjust product_id (Some new_stock) db
       = (Inr (Warning ''Stock cannot be negative.''), db) \<and>
     (fits_int64 new_stock \<and> fits_int64 product_id \<longrightarrow>
        fst (adjust_stock product_id new_stock db) = Inr () \<and>
        map p_stock (products (snd (adjust_stock product_id new_stock db)))
          = map (\<lambda>p. if p_id p = product_id then new_stock else p_stock p) (products db))"
  by (simp add: apply_stock_adjust_def adjust_stock_def)

theorem negative_stock_rejected_by_caller_witness:
  "(- 1 :: int) < 0 \<and> fits_int64 (- 1) \<and> fits_int64 1 \<and>
   apply_stock_adjust 1 (Some (- 1)) pen_store
     = (Inr (Warning ''Stock cannot be negative.''), pen_store) \<and>
   fst (adjust_stock 1 (- 1) pen_store) = Inr () \<and>
   map p_stock (products (snd (adjust_stock 1 (- 1) pen_store))) = [- 1]"
proof -
  have fit: "fits_int64 (- 1)" "fits_int64 1"
    by (simp_all add: fits_int64_def)
  have "map (\<lambda>p. if p_id p = 1 then - 1 else p_stock p) (products pen_store) = [- 1]"
    by (simp add: pen_store_def empty_store_def pen_def)
  with negative_stock_rejected_by_caller [of "- 1" 1 pen_store] fit show ?thesis
    by simp
qed

section \<open>Deleting a product that is not there\<close>

lemma map_p_id_stock_update:
  "map p_id (map (\<lambda>p. if p_id p = k then p\<lparr>p_stock := f p\<rparr> else p) ps) = map p_id ps"
  by (induction ps) simp_all

lemma stock_update_refer:
  "sales_refer db \<Longrightarrow>
     sales_refer (db\<lparr>sales := filter keep (sales db),
       products := map (\<lambda>p. if p_id p = k then p\<lparr>p_stock := f p\<rparr> else p) (products db)\<rparr>)"
proof -
  assume "sales_refer db"
  then have "list_all (\<lambda>s. s_product_id s \<in> set (map p_id (products db)))
      (filter keep (sales db))"
    by (auto simp: sales_refer_def list_all_iff)
  moreover have "products (db\<lparr>sales := filter keep (sales db),
      products := map (\<lambda>p. if p_id p = k then p\<lparr>p_stock := f p\<rparr> else p) (products db)\<rparr>)
      = map (\<lambda>p. if p_id p = k then p\<lparr>p_stock := f p\<rparr> else p) (products db)"
    by simp
  moreover have "sales (db\<lparr>sales := filter keep (sales db),
      products := map (\<lambda>p. if p_id p = k then p\<lparr>p_stock := f p\<rparr> else p) (products db)\<rparr>)
      = filter keep (sales db)"
    by simp
  ultimately show ?thesis
    unfolding sales_refer_def by (simp only: map_p_id_stock_update)
qed

lemma add_product_refer:
  "sales_refer db \<Longrightarrow>
     sales_refer (snd (add_product name price stock category price_text hhmmss image_ok db))"
  by (auto simp: add_product_def sales_refer_def list_all_iff Let_def)

lemma adjust_stock_refer:
  assumes "sales_refer db"
  shows "sales_refer (snd (adjust_stock product_id new_stock db))"
proof (cases "fits_int64 new_stock \<and> fits_int64 product_id")
  case True
  have "snd (adjust_stock product_id new_stock db)
      = db\<lparr>sales := filter (\<lambda>s. True) (sales db),
          products := map (\<lambda>p. if p_id p = product_id then p\<lparr>p_stock := new_stock\<rparr> else p)
            (products db)\<rparr>"
    using True by (simp add: adjust_stock_def)
  with stock_update_refer
    [where keep = "\<lambda>s. True" and k = product_id and f = "\<lambda>p. new_stock", OF assms]
  show ?thesis by simp
next
  case False
  with assms show ?thesis by (auto simp: adjust_stock_def)
qed

lemma delete_product_refer:
  "sales_refer db \<Longrightarrow> sales_refer (snd (delete_product product_id db))"
  by (auto simp: delete_product_def sales_refer_def list_all_iff)

lemma process_return_refer:
  assumes "sales_refer db"
  shows "sales_refer (snd (process_return sale_id product_id qty db))"
proof (cases "fits_int64 sale_id \<and> fits_int64 qty \<and> fits_int64 product_id")
  case True
  have "snd (process_return sale_id product_id qty db)
      = db\<lparr>sales := filter (\<lambda>s. s_id s \<noteq> sale_id) (sales db),
          products :=
            map (\<lambda>p. if p_id p = product_id then p\<lparr>p_stock := p_stock p + qty\<rparr> else p)
              (products db)\<rparr>"
    using True by (simp add: process_return_def)
  with stock_update_refer
    [where keep = "\<lambda>s. s_id s \<noteq> sale_id" and k = product_id
       and f = "\<lambda>p. p_stock p + qty", OF assms]
  show ?thesis by simp
next
  case False
  with assms show ?thesis by (auto simp: process_return_def)
qed

lemma run_operation_refer: "sales_refer db \<Longrightarrow> sales_refer (run_operation x db)"
  by (cases x)
    (simp_all add: add_product_refer adjust_stock_refer delete_product_refer
      process_return_refer record_sale_store)

text \<open>
  The empty store has no Sale row, and no sequence of core operations produces a Sale
  row without a product: every store the program builds satisfies \<open>sales_refer\<close>.
\<close>

lemma empty_store_refer: "sales_refer empty_store"
  by (simp add: sales_refer_def empty_store_def)

lemma run_operations_refer: "sales_refer db \<Longrightarrow> sales_refer (run_operations ops db)"
  by (induction ops arbitrary: db) (simp_all add: run_operation_refer)

text \<open>
  C9 as stated fails: no product has the id 2^63, yet delete_product on it does not
  complete; the id cannot be bound to the statement and the call raises.
\<close>

theorem delete_unknown_product_counterexample:
  "2 ^ 63 \<notin> set (map p_id (products pen_store)) \<and>
   fst (delete_product (2 ^ 63) pen_store) = Inl NameError"
  by (simp add: delete_product_def fits_int64_def generic_handler_def pen_store_def
      empty_store_def pen_def)

text \<open>
  C9, amended. For every product id that fits 64 bits and that no product has, on a store
  where every Sale row refers to an existing product, delete_product returns normally
  and leaves the whole store, so both the products and the sales, exactly as it was.
\<close>

theorem delete_unknown_product:
  "fits_int64 product_id \<Longrightarrow> product_id \<notin> set (map p_id (products db)) \<Longrightarrow>
   sales_refer db \<Longrightarrow>
     delete_product product_id db = (Inr (), db)"
proof -
  assume fit: "fits_int64 product_id"
    and absent: "product_id \<notin> set (map p_id (products db))"
    and refer: "sales_refer db"
  from absent have "filter (\<lambda>p. p_id p \<noteq> product_id) (products db) = products db"
    by (auto simp: filter_id_conv)
  moreover from absent refer
  have "filter (\<lambda>s. s_product_id s \<noteq> product_id) (sales db) = sales db"
    by (auto simp: filter_id_conv sales_refer_def list_all_iff)
  ultimately show ?thesis
    using fit by (simp add: delete_product_def)
qed

theorem delete_unknown_product_witness:
  "fits_int64 9 \<and> 9 \<notin> set (map p_id (products two_sale_store)) \<and>
   sales_refer two_sale_store \<and> length (sales two_sale_store) = 2 \<and>
   delete_product 9 two_sale_store = (Inr (), two_sale_store) \<and>
   products (snd (delete_product 1 two_sale_store)) = [] \<and>
   sales (snd (delete_product 1 two_sale_store)) = []"
proof -
  have fit: "fits_int64 9"
    by (simp add: fits_int64_def)
  have absent: "9 \<notin> set (map p_id (products two_sale_store))"
    by (simp add: two_sale_store_def pen_store_def empty_store_def pen_def)
  have refer: "sales_refer two_sale_store"
    by (simp add: sales_refer_def two_sale_store_def pen_store_def empty_store_def pen_def
        old_sale_def recent_sale_def)
  have "length (sales two_sale_store) = 2"
    by (simp add: two_sale_store_def)
  moreover have "products (snd (delete_product 1 two_sale_store)) = []"
    "sales (snd (delete_product 1 two_sale_store)) = []"
    by (simp_all add: delete_product_def fits_int64_def two_sale_store_def pen_store_def
        empty_store_def pen_def old_sale_def recent_sale_def)
  ultimately show ?thesis
    using delete_unknown_product [OF fit absent refer] fit absent refer by simp
qed

section \<open>Adding a customer twice\<close>







end
